theory Spec2Isabelle
  imports Main "HOL-Library.Sublist"
begin

section \<open>Strings\<close>

text \<open>
  A Go string is a sequence of bytes, here a \<open>string\<close> (a list of 8-bit characters).
  Text beyond ASCII is held in UTF-8, so a rune is one to four bytes.
\<close>

subsection \<open>strings.TrimSpace\<close>

text \<open>
  \<open>strings.TrimSpace\<close> removes the leading and the trailing white space of a string,
  white space being the runes of \<open>unicode.IsSpace\<close>: tab, line feed, vertical tab, form
  feed, carriage return, space, U+0085, U+00A0, U+1680, U+2000 to U+200A, U+2028, U+2029,
  U+202F, U+205F and U+3000. \<open>white_space\<close> lists their UTF-8 encodings. A byte
  sequence that is not the encoding of one of them (an invalid byte included) is not
  white space.
\<close>

definition white_space :: "string list" where
  "white_space =
    [[CHR 0x09], [CHR 0x0A], [CHR 0x0B], [CHR 0x0C], [CHR 0x0D], [CHR 0x20],
     [CHR 0xC2, CHR 0x85], [CHR 0xC2, CHR 0xA0],
     [CHR 0xE1, CHR 0x9A, CHR 0x80],
     [CHR 0xE2, CHR 0x80, CHR 0x80], [CHR 0xE2, CHR 0x80, CHR 0x81],
     [CHR 0xE2, CHR 0x80, CHR 0x82], [CHR 0xE2, CHR 0x80, CHR 0x83],
     [CHR 0xE2, CHR 0x80, CHR 0x84], [CHR 0xE2, CHR 0x80, CHR 0x85],
     [CHR 0xE2, CHR 0x80, CHR 0x86], [CHR 0xE2, CHR 0x80, CHR 0x87],
     [CHR 0xE2, CHR 0x80, CHR 0x88], [CHR 0xE2, CHR 0x80, CHR 0x89],
     [CHR 0xE2, CHR 0x80, CHR 0x8A],
     [CHR 0xE2, CHR 0x80, CHR 0xA8], [CHR 0xE2, CHR 0x80, CHR 0xA9],
     [CHR 0xE2, CHR 0x80, CHR 0xAF], [CHR 0xE2, CHR 0x81, CHR 0x9F],
     [CHR 0xE3, CHR 0x80, CHR 0x80]]"

text \<open>The white-space rune a string starts with, and the one it ends with.\<close>

definition leading_space :: "string \<Rightarrow> string option" where
  "leading_space s = List.find (\<lambda>p. prefix p s) white_space"

definition trailing_space :: "string \<Rightarrow> string option" where
  "trailing_space s = List.find (\<lambda>p. suffix p s) white_space"

lemma white_space_nonempty: "p \<in> set white_space \<Longrightarrow> p \<noteq> []"
  by (auto simp: white_space_def)

lemma leading_space_shorter:
  "leading_space s = Some p \<Longrightarrow> length (drop (length p) s) < length s"
  unfolding leading_space_def
  by (auto simp: find_Some_iff prefix_def dest!: white_space_nonempty [OF nth_mem])

lemma trailing_space_shorter:
  "trailing_space s = Some p \<Longrightarrow> length (take (length s - length p) s) < length s"
  unfolding trailing_space_def
  by (auto simp: find_Some_iff suffix_def dest!: white_space_nonempty [OF nth_mem])

function TrimLeft :: "string \<Rightarrow> string" where
  "TrimLeft s =
     (case leading_space s of None \<Rightarrow> s | Some p \<Rightarrow> TrimLeft (drop (length p) s))"
  by pat_completeness auto
termination
  by (relation "measure length") (auto dest: leading_space_shorter)

function TrimRight :: "string \<Rightarrow> string" where
  "TrimRight s =
     (case trailing_space s of None \<Rightarrow> s
      | Some p \<Rightarrow> TrimRight (take (length s - length p) s))"
  by pat_completeness auto
termination
  by (relation "measure length") (auto dest: trailing_space_shorter)

declare TrimLeft.simps [simp del] TrimRight.simps [simp del]

definition TrimSpace :: "string \<Rightarrow> string" where
  "TrimSpace s = TrimRight (TrimLeft s)"

text \<open>
  What "white space only" means, said without the trimming loops: the string is a
  sequence of white-space runes (the empty string is one).
\<close>

inductive space_only :: "string \<Rightarrow> bool" where
  space_only_Nil: "space_only []"
| space_only_App: "p \<in> set white_space \<Longrightarrow> space_only s \<Longrightarrow> space_only (p @ s)"

section \<open>The response envelope (api\_response.go)\<close>

text \<open>
  \<open>Data\<close> and \<open>Meta\<close> have the Go type \<open>any\<close>: the nil interface is \<open>None\<close>, and
  \<open>Some v\<close> holds a Go value \<open>v\<close>. The type \<open>'v\<close> of these values is left open: the
  package never looks inside a payload. \<open>ErrorCode\<close> is a \<open>*string\<close>: \<open>None\<close> is the
  nil pointer. \<open>StatusCode\<close> is a Go \<open>int\<close>; the package only compares it.
\<close>

record 'v APIResponse =
  StatusCode :: int
  Success :: bool
  Message :: string
  ErrorCode :: "string option"
  Data :: "'v option"
  Meta :: "'v option"

text \<open>The method \<open>Error()\<close> of the envelope, which makes it a Go error.\<close>

definition APIResponse_Error :: "'v APIResponse \<Rightarrow> string" where
  "APIResponse_Error a = Message a"

text \<open>A panic ends the call with its message instead of a result.\<close>

datatype panic = Panic string

text \<open>The status codes of net/http that the package names.\<close>

definition StatusOK :: int where "StatusOK = 200"
definition StatusCreated :: int where "StatusCreated = 201"
definition StatusBadRequest :: int where "StatusBadRequest = 400"
definition StatusUnauthorized :: int where "StatusUnauthorized = 401"
definition StatusForbidden :: int where "StatusForbidden = 403"
definition StatusNotFound :: int where "StatusNotFound = 404"
definition StatusConflict :: int where "StatusConflict = 409"
definition StatusInternalServerError :: int where "StatusInternalServerError = 500"

definition NewAPIResponse ::
  "int \<Rightarrow> bool \<Rightarrow> string \<Rightarrow> string \<Rightarrow> 'v option \<Rightarrow> 'v APIResponse" where
  "NewAPIResponse statusCode success msg errorCode data =
     (let errCode = (if TrimSpace errorCode = [] then None else Some errorCode)
      in \<lparr>StatusCode = statusCode, Success = success, Message = msg,
          ErrorCode = errCode, Data = data, Meta = None\<rparr>)"

definition Error :: "int \<Rightarrow> string \<Rightarrow> string \<Rightarrow> panic + 'v APIResponse" where
  "Error statusCode msg errorCode =
     (if statusCode < StatusBadRequest
      then Inl (Panic
        ''response error: cant set an error response with a non-error http status code'')
      else Inr (NewAPIResponse statusCode False msg errorCode None))"

text \<open>
  The function \<open>Success\<close> of the package; the record field \<open>Success\<close> has the name
  already.
\<close>

definition Success_func :: "int \<Rightarrow> string \<Rightarrow> 'v option \<Rightarrow> panic + 'v APIResponse" where
  "Success_func statusCode msg data =
     (if statusCode \<ge> StatusBadRequest
      then Inl (Panic
        ''response error: cant set a success response with an error http status code'')
      else
        (let msg' = (if msg = [] then ''Request was successful'' else msg)
         in Inr (NewAPIResponse statusCode True msg' [] data)))"

definition OK :: "string \<Rightarrow> 'v option \<Rightarrow> panic + 'v APIResponse" where
  "OK msg data = Success_func StatusOK msg data"

definition Created :: "string \<Rightarrow> 'v option \<Rightarrow> panic + 'v APIResponse" where
  "Created msg data = Success_func StatusCreated msg data"

definition List_func :: "string \<Rightarrow> 'v option \<Rightarrow> 'v option \<Rightarrow> 'v APIResponse" where
  "List_func msg data meta =
     (let msg' = (if msg = [] then ''Request was successful'' else msg);
          rsp = NewAPIResponse StatusOK True msg' [] data
      in rsp\<lparr>Meta := meta\<rparr>)"

definition BadRequest :: "string \<Rightarrow> string \<Rightarrow> panic + 'v APIResponse" where
  "BadRequest msg errorCode =
     Error StatusBadRequest (if msg = [] then ''Request is in a bad format'' else msg) errorCode"

definition Unauthorized :: "string \<Rightarrow> string \<Rightarrow> panic + 'v APIResponse" where
  "Unauthorized msg errorCode =
     Error StatusUnauthorized
       (if msg = [] then ''Not authenticated to perform the requested action'' else msg)
       errorCode"

definition Forbidden :: "string \<Rightarrow> string \<Rightarrow> panic + 'v APIResponse" where
  "Forbidden msg errorCode =
     Error StatusForbidden
       (if msg = [] then ''Not authorized to perform the requested action'' else msg)
       errorCode"

definition NotFound :: "string \<Rightarrow> string \<Rightarrow> panic + 'v APIResponse" where
  "NotFound msg errorCode =
     Error StatusNotFound (if msg = [] then ''Requested resource not found'' else msg) errorCode"

definition Conflict :: "string \<Rightarrow> string \<Rightarrow> panic + 'v APIResponse" where
  "Conflict msg errorCode =
     Error StatusConflict
       (if msg = [] then ''Requested resource already exist'' else msg) errorCode"

definition InternalServerError :: "string \<Rightarrow> string \<Rightarrow> panic + 'v APIResponse" where
  "InternalServerError msg errorCode =
     Error StatusInternalServerError
       (if msg = [] then ''Something went wrong on our end.'' else msg) errorCode"

section \<open>Go errors\<close>

text \<open>
  The error values the package meets. \<open>SyntaxError\<close> carries the fields \<open>msg\<close> and
  \<open>Offset\<close> of \<open>json.SyntaxError\<close>; \<open>UnmarshalTypeError\<close> the fields \<open>Value\<close>,
  \<open>Type\<close> (by name), \<open>Offset\<close>, \<open>Struct\<close>, \<open>Field\<close> and \<open>Err\<close> of
  \<open>json.UnmarshalTypeError\<close>, where \<open>Err\<close> is the cause that the method \<open>Unwrap\<close>
  returns and may be nil (it is always nil with a library whose type has no such field).
  \<open>NilSyntaxError\<close> and \<open>NilUnmarshalTypeError\<close> are the \<open>error\<close> interface holding a
  nil pointer of these two types: not the nil error, and with no fields to read.
  \<open>UnsupportedTypeError\<close> is what \<open>json.Marshal\<close> returns for a value it cannot
  encode. \<open>ErrUnexpectedEOF\<close> and \<open>EOF\<close> are the sentinels \<open>io.ErrUnexpectedEOF\<close>
  and \<open>io.EOF\<close>. \<open>ErrorString\<close> is the error of \<open>errors.New\<close> and of
  \<open>fmt.Errorf\<close> without \<open>%w\<close>. \<open>Wrap\<close> is the error of \<open>fmt.Errorf\<close> with one
  \<open>%w\<close> (its text and the error it wraps), \<open>Join\<close> the error of \<open>errors.Join\<close>
  and of \<open>fmt.Errorf\<close> with several \<open>%w\<close>. Offsets are \<open>int64\<close>; the package only
  prints them.
\<close>

datatype go_error =
    SyntaxError string int
  | NilSyntaxError
  | UnmarshalTypeError string string int string string "go_error option"
  | NilUnmarshalTypeError
  | UnsupportedTypeError string
  | ErrUnexpectedEOF
  | EOF
  | ErrorString string
  | Wrap string go_error
  | Join "go_error list"

text \<open>
  What a search through the tree of an error comes to: nothing found, something found, or
  a nil pointer dereference on the way. The method \<open>Unwrap\<close> of
  \<open>*json.UnmarshalTypeError\<close> reads the field \<open>Err\<close>, so calling it on a nil pointer
  is such a dereference.
\<close>

datatype 'a lookup = Absent | Present 'a | Crash

text \<open>The searches of the members of a \<open>Join\<close>, in order, up to the first that ends the search.\<close>

primrec first_hit :: "'a lookup list \<Rightarrow> 'a lookup" where
  "first_hit [] = Absent"
| "first_hit (x # xs) =
     (case x of Absent \<Rightarrow> first_hit xs | Present y \<Rightarrow> Present y | Crash \<Rightarrow> Crash)"

text \<open>
  \<open>errors.As(err, &syntaxError)\<close>: the first \<open>*json.SyntaxError\<close> in the tree of
  \<open>err\<close>, the error itself first, then what it wraps, depth first. The pointer found is
  \<open>None\<close> when it is nil and else the fields \<open>msg\<close> and \<open>Offset\<close> of the error.
\<close>

fun As_SyntaxError :: "go_error \<Rightarrow> (string \<times> int) option lookup" where
  "As_SyntaxError (SyntaxError msg offset) = Present (Some (msg, offset))"
| "As_SyntaxError NilSyntaxError = Present None"
| "As_SyntaxError (UnmarshalTypeError val type offset struct field None) = Absent"
| "As_SyntaxError (UnmarshalTypeError val type offset struct field (Some err)) =
     As_SyntaxError err"
| "As_SyntaxError NilUnmarshalTypeError = Crash"
| "As_SyntaxError (Wrap text err) = As_SyntaxError err"
| "As_SyntaxError (Join errs) = first_hit (map As_SyntaxError errs)"
| "As_SyntaxError _ = Absent"

text \<open>
  \<open>errors.As(err, &unmarshalTypeError)\<close>; the pointer found is \<open>None\<close> when it is nil
  and else (Field, Offset) of the error.
\<close>

fun As_UnmarshalTypeError :: "go_error \<Rightarrow> (string \<times> int) option lookup" where
  "As_UnmarshalTypeError (UnmarshalTypeError val type offset struct field cause) =
     Present (Some (field, offset))"
| "As_UnmarshalTypeError NilUnmarshalTypeError = Present None"
| "As_UnmarshalTypeError (Wrap text err) = As_UnmarshalTypeError err"
| "As_UnmarshalTypeError (Join errs) = first_hit (map As_UnmarshalTypeError errs)"
| "As_UnmarshalTypeError _ = Absent"

text \<open>
  \<open>errors.Is(err, target)\<close> for a sentinel \<open>target\<close>: some error in the tree of \<open>err\<close>
  is the target.
\<close>

fun Is :: "go_error \<Rightarrow> go_error \<Rightarrow> unit lookup" where
  "Is (UnmarshalTypeError val type offset struct field None) target =
     (if UnmarshalTypeError val type offset struct field None = target
      then Present () else Absent)"
| "Is (UnmarshalTypeError val type offset struct field (Some err)) target =
     (if UnmarshalTypeError val type offset struct field (Some err) = target
      then Present () else Is err target)"
| "Is NilUnmarshalTypeError target =
     (if NilUnmarshalTypeError = target then Present () else Crash)"
| "Is (Wrap text err) target = (if Wrap text err = target then Present () else Is err target)"
| "Is (Join errs) target =
     (if Join errs = target then Present ()
      else first_hit (map (\<lambda>err. Is err target) errs))"
| "Is err target = (if err = target then Present () else Absent)"

text \<open>
  The errors in the tree of an error, in the order \<open>errors.As\<close> and \<open>errors.Is\<close> visit
  them: the error, then what it wraps. An error "is or wraps" an error with a property
  when the tree has one.
\<close>

fun tree :: "go_error \<Rightarrow> go_error list" where
  "tree (UnmarshalTypeError val type offset struct field (Some err)) =
     UnmarshalTypeError val type offset struct field (Some err) # tree err"
| "tree (Wrap text err) = Wrap text err # tree err"
| "tree (Join errs) = Join errs # concat (map tree errs)"
| "tree err = [err]"

fun is_SyntaxError :: "go_error \<Rightarrow> bool" where
  "is_SyntaxError (SyntaxError msg offset) = True"
| "is_SyntaxError _ = False"

fun is_UnmarshalTypeError :: "go_error \<Rightarrow> bool" where
  "is_UnmarshalTypeError (UnmarshalTypeError val type offset struct field cause) = True"
| "is_UnmarshalTypeError _ = False"

fun is_nil_pointer :: "go_error \<Rightarrow> bool" where
  "is_nil_pointer NilSyntaxError = True"
| "is_nil_pointer NilUnmarshalTypeError = True"
| "is_nil_pointer _ = False"

definition wraps :: "(go_error \<Rightarrow> bool) \<Rightarrow> go_error \<Rightarrow> bool" where
  "wraps P err = list_ex P (tree err)"

text \<open>An error that neither is nor wraps a nil pointer.\<close>

definition no_nil_pointer :: "go_error \<Rightarrow> bool" where
  "no_nil_pointer err = (\<not> wraps is_nil_pointer err)"

fun syntax_fields :: "go_error \<Rightarrow> (string \<times> int) option" where
  "syntax_fields (SyntaxError msg offset) = Some (msg, offset)"
| "syntax_fields _ = None"

fun type_fields :: "go_error \<Rightarrow> (string \<times> int) option" where
  "type_fields (UnmarshalTypeError val type offset struct field cause) = Some (field, offset)"
| "type_fields _ = None"

section \<open>Formatting (fmt)\<close>

text \<open>The verb \<open>%d\<close> on an integer: its decimal digits, after a minus sign when negative.\<close>

definition digit :: "nat \<Rightarrow> char" where
  "digit n = ''0123456789abcdef'' ! n"

fun digits :: "nat \<Rightarrow> string" where
  "digits n = (if n < 10 then [digit n] else digits (n div 10) @ [digit (n mod 10)])"

declare digits.simps [simp del]

text \<open>Reading decimal digits back, to say what \<open>digits\<close> writes.\<close>

definition decimal :: "string \<Rightarrow> nat" where
  "decimal s = foldl (\<lambda>a c. 10 * a + (of_char c - 48)) 0 s"

definition fmt_d :: "int \<Rightarrow> string" where
  "fmt_d i = (if i < 0 then CHR ''-'' # digits (nat (- i)) else digits (nat i))"

text \<open>
  The verb \<open>%q\<close> on a string is \<open>strconv.Quote\<close>: the string in double quotes, a double
  quote and a backslash escaped with a backslash, a printable character as it is, the
  control characters as \<open>\a \b \f \n \r \t \v\<close> or as \<open>\x\<close> and two hexadecimal digits.
  \<open>quote_byte\<close> is that for one ASCII character.
\<close>

definition quote_byte :: "char \<Rightarrow> string" where
  "quote_byte c =
     (let b = (of_char c :: nat) in
      if c = CHR 0x22 \<or> c = CHR 0x5C then [CHR 0x5C, c]
      else if 0x20 \<le> b \<and> b < 0x7F then [c]
      else if b = 0x07 then [CHR 0x5C, CHR ''a'']
      else if b = 0x08 then [CHR 0x5C, CHR ''b'']
      else if b = 0x0C then [CHR 0x5C, CHR ''f'']
      else if b = 0x0A then [CHR 0x5C, CHR ''n'']
      else if b = 0x0D then [CHR 0x5C, CHR ''r'']
      else if b = 0x09 then [CHR 0x5C, CHR ''t'']
      else if b = 0x0B then [CHR 0x5C, CHR ''v'']
      else [CHR 0x5C, CHR ''x'', digit (b div 16), digit (b mod 16)])"

text \<open>
  Beyond ASCII, \<open>strconv.Quote\<close> decodes runes and asks the Unicode tables whether a rune
  is printable. The tables are not part of this development: the quoting of a string with
  a byte from 0x80 on is the parameter \<open>quote_unicode\<close>.
\<close>

definition fmt_q :: "(string \<Rightarrow> string) \<Rightarrow> string \<Rightarrow> string" where
  "fmt_q quote_unicode s =
     (if list_all (\<lambda>c. (of_char c :: nat) < 0x80) s
      then [CHR 0x22] @ concat (map quote_byte s) @ [CHR 0x22]
      else quote_unicode s)"

text \<open>A string that \<open>%q\<close> only puts between quotes: printable ASCII, no quote, no backslash.\<close>

definition plain :: "string \<Rightarrow> bool" where
  "plain s =
     list_all (\<lambda>c. 0x20 \<le> (of_char c :: nat) \<and> (of_char c :: nat) < 0x7F
                    \<and> c \<noteq> CHR 0x22 \<and> c \<noteq> CHR 0x5C) s"

section \<open>Classifying a decode error (utils.go)\<close>

text \<open>
  Reading \<open>syntaxError.Offset\<close> or \<open>unmarshalTypeError.Field\<close> through a nil pointer
  panics, as a nil pointer dereference inside \<open>errors.As\<close> or \<open>errors.Is\<close> does.
\<close>

definition nil_dereference :: panic where
  "nil_dereference = Panic ''runtime error: invalid memory address or nil pointer dereference''"

definition IsJsonErrorGetDetails ::
  "(string \<Rightarrow> string) \<Rightarrow> go_error option \<Rightarrow> panic + bool \<times> go_error option" where
  "IsJsonErrorGetDetails quote_unicode err =
     (case err of
        None \<Rightarrow> Inr (False, None)
      | Some e \<Rightarrow>
          (case As_SyntaxError e of
             Crash \<Rightarrow> Inl nil_dereference
           | Present None \<Rightarrow> Inl nil_dereference
           | Present (Some (msg, offset)) \<Rightarrow>
               Inr (True, Some (ErrorString
                  (''body contains badly-formed JSON (at character '' @ fmt_d offset @ '')'')))
           | Absent \<Rightarrow>
               (case Is e ErrUnexpectedEOF of
                  Crash \<Rightarrow> Inl nil_dereference
                | Present u \<Rightarrow> Inr (True, Some (ErrorString ''body contains badly-formed JSON''))
                | Absent \<Rightarrow>
                    (case As_UnmarshalTypeError e of
                       Crash \<Rightarrow> Inl nil_dereference
                     | Present None \<Rightarrow> Inl nil_dereference
                     | Present (Some (field, offset)) \<Rightarrow>
                         Inr (True, Some (ErrorString
                            (''body contains incorrect JSON type [for field ''
                               @ fmt_q quote_unicode field @ ''] (at character ''
                               @ fmt_d offset @ '')'')))
                     | Absent \<Rightarrow>
                         (case Is e EOF of
                            Crash \<Rightarrow> Inl nil_dereference
                          | Present u \<Rightarrow> Inr (True, Some (ErrorString ''body must not be empty''))
                          | Absent \<Rightarrow> Inr (False, Some e))))))"

section \<open>JSON (encoding/json)\<close>

text \<open>
  A JSON document after scanning: a number keeps its literal, a string is the bytes it
  denotes, an object is its members in the order of the text. The text itself (printing a
  document, scanning one, the offsets in it) is the library's and stays outside: \<open>ToJson\<close>
  gives the document that is printed and \<open>FromJsonToAPIResponse\<close> takes the document
  that was scanned.
\<close>

datatype json =
    JNull
  | JBool bool
  | JNumber string
  | JString string
  | JArray "json list"
  | JObject "(string \<times> json) list"

subsection \<open>Strings are coerced to valid UTF-8\<close>

text \<open>
  The width of the rune a string starts with, as \<open>utf8.DecodeRuneInString\<close> finds it;
  0 when the first byte does not start a valid encoding (the decoder then returns
  \<open>RuneError\<close> with width 1).
\<close>

definition in_range :: "nat \<Rightarrow> nat \<Rightarrow> char \<Rightarrow> bool" where
  "in_range lo hi c = (lo \<le> of_char c \<and> of_char c \<le> hi)"

definition tail_ok :: "nat \<Rightarrow> nat \<Rightarrow> nat \<Rightarrow> string \<Rightarrow> bool" where
  "tail_ok lo hi n s =
     (n \<le> length s \<and> in_range lo hi (hd s) \<and> list_all (in_range 0x80 0xBF) (take (n - 1) (tl s)))"

definition rune_width :: "string \<Rightarrow> nat" where
  "rune_width s =
     (case s of
        [] \<Rightarrow> 0
      | c # t \<Rightarrow>
          (let b = (of_char c :: nat) in
           if b < 0x80 then 1
           else if 0xC2 \<le> b \<and> b \<le> 0xDF then (if tail_ok 0x80 0xBF 1 t then 2 else 0)
           else if b = 0xE0 then (if tail_ok 0xA0 0xBF 2 t then 3 else 0)
           else if 0xE1 \<le> b \<and> b \<le> 0xEC then (if tail_ok 0x80 0xBF 2 t then 3 else 0)
           else if b = 0xED then (if tail_ok 0x80 0x9F 2 t then 3 else 0)
           else if 0xEE \<le> b \<and> b \<le> 0xEF then (if tail_ok 0x80 0xBF 2 t then 3 else 0)
           else if b = 0xF0 then (if tail_ok 0x90 0xBF 3 t then 4 else 0)
           else if 0xF1 \<le> b \<and> b \<le> 0xF3 then (if tail_ok 0x80 0xBF 3 t then 4 else 0)
           else if b = 0xF4 then (if tail_ok 0x80 0x8F 3 t then 4 else 0)
           else 0))"

text \<open>
  The encoder writes a string rune by rune and writes U+FFFD (bytes EF BF BD) for each byte
  that does not start a valid encoding.
\<close>

function to_valid_utf8 :: "string \<Rightarrow> string" where
  "to_valid_utf8 s =
     (if s = [] then []
      else if rune_width s = 0 then [CHR 0xEF, CHR 0xBF, CHR 0xBD] @ to_valid_utf8 (tl s)
      else take (rune_width s) s @ to_valid_utf8 (drop (rune_width s) s))"
  by pat_completeness auto
termination
  by (relation "measure length") auto

declare to_valid_utf8.simps [simp del]

text \<open>\<open>utf8.ValidString\<close>: every byte belongs to a valid encoding.\<close>

function valid_utf8 :: "string \<Rightarrow> bool" where
  "valid_utf8 s =
     (if s = [] then True
      else if rune_width s = 0 then False
      else valid_utf8 (drop (rune_width s) s))"
  by pat_completeness auto
termination
  by (relation "measure length") auto

declare valid_utf8.simps [simp del]

subsection \<open>Encoding the envelope\<close>

text \<open>
  \<open>json.Marshal\<close> on the envelope follows the struct tags: \<open>StatusCode\<close> is tagged
  \<open>"-"\<close> and never written; \<open>success\<close> and \<open>message\<close> are always written;
  \<open>errorCode\<close>, \<open>data\<close> and \<open>meta\<close> are tagged \<open>omitempty\<close>, which leaves out a nil
  pointer and a nil interface and nothing else. The members come in the order of the
  fields. How a payload is encoded is the library's business and depends on the payload's
  Go type: \<open>enc\<close> is that encoding, the document of a value or the error that it has none
  (a channel, a function, a NaN).
\<close>

definition marshal_any ::
  "('v \<Rightarrow> go_error + json) \<Rightarrow> string \<Rightarrow> 'v option \<Rightarrow> go_error + (string \<times> json) list" where
  "marshal_any enc name x =
     (case x of
        None \<Rightarrow> Inr []
      | Some v \<Rightarrow> (case enc v of Inl err \<Rightarrow> Inl err | Inr j \<Rightarrow> Inr [(name, j)]))"

definition Marshal :: "('v \<Rightarrow> go_error + json) \<Rightarrow> 'v APIResponse \<Rightarrow> go_error + json" where
  "Marshal enc r =
     (case marshal_any enc ''data'' (Data r) of
        Inl err \<Rightarrow> Inl err
      | Inr d \<Rightarrow>
          (case marshal_any enc ''meta'' (Meta r) of
             Inl err \<Rightarrow> Inl err
           | Inr m \<Rightarrow>
               Inr (JObject
                 ([(''success'', JBool (Success r)),
                   (''message'', JString (to_valid_utf8 (Message r)))]
                  @ (case ErrorCode r of
                       None \<Rightarrow> []
                     | Some c \<Rightarrow> [(''errorCode'', JString (to_valid_utf8 c))])
                  @ d @ m))))"

definition ToJson :: "('v \<Rightarrow> go_error + json) \<Rightarrow> 'v APIResponse \<Rightarrow> go_error + json" where
  "ToJson enc r = (case Marshal enc r of Inl err \<Rightarrow> Inl err | Inr byte \<Rightarrow> Inr byte)"

subsection \<open>Decoding an envelope\<close>

text \<open>
  The fields \<open>json.Unmarshal\<close> can fill, with their JSON names. A member's key names a
  field when it is the name, or else when it is the name up to folding: ASCII letters
  without regard to case, and the two runes that fold to an ASCII letter, U+017F to S and
  U+212A to K.
\<close>

datatype field = F_success | F_message | F_errorCode | F_data | F_meta

definition json_fields :: "(string \<times> field) list" where
  "json_fields =
     [(''success'', F_success), (''message'', F_message), (''errorCode'', F_errorCode),
      (''data'', F_data), (''meta'', F_meta)]"

definition upper :: "char \<Rightarrow> char" where
  "upper c =
     (if 0x61 \<le> (of_char c :: nat) \<and> (of_char c :: nat) \<le> 0x7A
      then char_of ((of_char c :: nat) - 0x20) else c)"

fun fold_match :: "string \<Rightarrow> string \<Rightarrow> bool" where
  "fold_match [] key = (key = [])"
| "fold_match (n # name) key =
     (if take 2 key = [CHR 0xC5, CHR 0xBF] then upper n = CHR ''S'' \<and> fold_match name (drop 2 key)
      else if take 3 key = [CHR 0xE2, CHR 0x84, CHR 0xAA]
        then upper n = CHR ''K'' \<and> fold_match name (drop 3 key)
      else (case key of [] \<Rightarrow> False | c # cs \<Rightarrow> upper c = upper n \<and> fold_match name cs))"

definition field_named :: "string \<Rightarrow> field option" where
  "field_named key =
     (case map_of json_fields key of
        Some f \<Rightarrow> Some f
      | None \<Rightarrow> map_option snd (List.find (\<lambda>(name, f). fold_match name key) json_fields))"

text \<open>
  Storing a JSON value in a field. \<open>null\<close> leaves a \<open>bool\<close> and a \<open>string\<close> as they
  are and makes a pointer and an interface nil. A value of another kind than the field's
  is an \<open>UnmarshalTypeError\<close>, here \<open>None\<close>. An interface takes any other value, in
  the generic form the library builds for it (\<open>bool\<close>, \<open>float64\<close>, \<open>string\<close>,
  \<open>[]any\<close>, \<open>map[string]any\<close>): \<open>dec\<close> is that value, or \<open>None\<close> where the
  library has none and reports an \<open>UnmarshalTypeError\<close>, as for a number that no
  \<open>float64\<close> holds.
\<close>

fun store ::
  "(json \<Rightarrow> 'v option) \<Rightarrow> field \<Rightarrow> json \<Rightarrow> 'v APIResponse \<Rightarrow> 'v APIResponse option" where
  "store dec F_success (JBool b) r = Some (r\<lparr>Success := b\<rparr>)"
| "store dec F_success JNull r = Some r"
| "store dec F_success _ r = None"
| "store dec F_message (JString s) r = Some (r\<lparr>Message := s\<rparr>)"
| "store dec F_message JNull r = Some r"
| "store dec F_message _ r = None"
| "store dec F_errorCode (JString s) r = Some (r\<lparr>ErrorCode := Some s\<rparr>)"
| "store dec F_errorCode JNull r = Some (r\<lparr>ErrorCode := None\<rparr>)"
| "store dec F_errorCode _ r = None"
| "store dec F_data JNull r = Some (r\<lparr>Data := None\<rparr>)"
| "store dec F_data j r = (case dec j of None \<Rightarrow> None | Some v \<Rightarrow> Some (r\<lparr>Data := Some v\<rparr>))"
| "store dec F_meta JNull r = Some (r\<lparr>Meta := None\<rparr>)"
| "store dec F_meta j r = (case dec j of None \<Rightarrow> None | Some v \<Rightarrow> Some (r\<lparr>Meta := Some v\<rparr>))"

text \<open>
  The members are stored in their order; a key that names no field is skipped. The
  library goes on after a type error and returns the first one at the end: the call fails
  in both readings.
\<close>

fun decode_members ::
  "(json \<Rightarrow> 'v option) \<Rightarrow> (string \<times> json) list \<Rightarrow> 'v APIResponse \<Rightarrow> 'v APIResponse option"
  where
  "decode_members dec [] r = Some r"
| "decode_members dec ((key, j) # members) r =
     (case field_named key of
        None \<Rightarrow> decode_members dec members r
      | Some f \<Rightarrow>
          (case store dec f j r of
             None \<Rightarrow> None
           | Some r' \<Rightarrow> decode_members dec members r'))"

text \<open>
  How deep the arrays and objects of a document are nested. The library refuses a document
  nested deeper than \<open>maxNestingDepth\<close>, before it stores anything.
\<close>

fun nesting :: "json \<Rightarrow> nat" where
  "nesting (JArray elements) = Suc (fold max (map nesting elements) 0)"
| "nesting (JObject members) = Suc (fold max (map (\<lambda>m. nesting (snd m)) members) 0)"
| "nesting _ = 0"

definition maxNestingDepth :: nat where
  "maxNestingDepth = 10000"

text \<open>
  \<open>json.Unmarshal\<close> into an envelope: \<open>null\<close> changes nothing, an object fills the
  fields, anything else is an \<open>UnmarshalTypeError\<close>.
\<close>

definition Unmarshal ::
  "(json \<Rightarrow> 'v option) \<Rightarrow> json \<Rightarrow> 'v APIResponse \<Rightarrow> 'v APIResponse option" where
  "Unmarshal dec doc r =
     (if maxNestingDepth < nesting doc then None
      else
        (case doc of
           JNull \<Rightarrow> Some r
         | JObject members \<Rightarrow> decode_members dec members r
         | _ \<Rightarrow> None))"

text \<open>The zero value of the struct, which \<open>var apiResponse APIResponse\<close> declares.\<close>

definition zero_APIResponse :: "'v APIResponse" where
  "zero_APIResponse =
     \<lparr>StatusCode = 0, Success = False, Message = [], ErrorCode = None, Data = None, Meta = None\<rparr>"

text \<open>\<open>None\<close> is the return of \<open>nil\<close> with the decoder's error.\<close>

definition FromJsonToAPIResponse ::
  "(json \<Rightarrow> 'v option) \<Rightarrow> json \<Rightarrow> 'v APIResponse option" where
  "FromJsonToAPIResponse dec dataByte =
     (case Unmarshal dec dataByte zero_APIResponse of
        None \<Rightarrow> None
      | Some apiResponse \<Rightarrow> Some apiResponse)"

subsection \<open>Numbers that a float64 holds\<close>

text \<open>
  The generic form of a number is a \<open>float64\<close>, read by \<open>strconv.ParseFloat\<close>, which
  rounds to the nearest \<open>float64\<close> and fails when that is beyond the largest one: when
  the number is, in absolute value, at least \<open>2^1024 - 2^970\<close>. A literal of the JSON
  grammar is an optional minus sign, digits, an optional fraction and an optional exponent;
  its absolute value is the digits of the whole part and the fraction, read as one integer,
  times ten to the exponent less the length of the fraction.
\<close>

definition is_digit :: "char \<Rightarrow> bool" where
  "is_digit c = (48 \<le> (of_char c :: nat) \<and> (of_char c :: nat) \<le> 57)"

definition float64_holds :: "string \<Rightarrow> bool" where
  "float64_holds lit =
     (let unsigned = (if take 1 lit = ''-'' then drop 1 lit else lit);
          whole = takeWhile is_digit unsigned;
          after = dropWhile is_digit unsigned;
          frac = (if take 1 after = ''.'' then takeWhile is_digit (drop 1 after) else []);
          expo = (if take 1 after = ''.'' then dropWhile is_digit (drop 1 after) else after);
          e = (if expo = [] then 0
               else if take 1 (drop 1 expo) = ''-'' then - int (decimal (drop 2 expo))
               else if take 1 (drop 1 expo) = ''+'' then int (decimal (drop 2 expo))
               else int (decimal (drop 1 expo)))
              - int (length frac);
          m = int (decimal (whole @ frac))
      in if 0 \<le> e then m * 10 ^ nat e < 2 ^ 1024 - 2 ^ 970
         else m < (2 ^ 1024 - 2 ^ 970) * 10 ^ nat (- e))"

fun numbers_held :: "json \<Rightarrow> bool" where
  "numbers_held (JNumber lit) = float64_holds lit"
| "numbers_held (JArray elements) = list_all numbers_held elements"
| "numbers_held (JObject members) = list_all (\<lambda>m. numbers_held (snd m)) members"
| "numbers_held _ = True"

subsection \<open>A sample of payloads\<close>

text \<open>
  Four Go values to run the encoder and the decoder on: a nil slice, which is a value (the
  interface holding it is not nil) and is encoded as \<open>null\<close>; a \<open>json.RawMessage\<close>,
  given by the document of its text and encoded as that document; a value of generic form,
  given by its document; a function, which has no encoding. The decoder builds the generic
  value of a document unless one of its numbers is beyond \<open>float64\<close>.
\<close>

datatype go_value = NilSlice | Raw json | Generic json | Func

fun enc_sample :: "go_value \<Rightarrow> go_error + json" where
  "enc_sample NilSlice = Inr JNull"
| "enc_sample (Raw j) = Inr j"
| "enc_sample (Generic j) = Inr j"
| "enc_sample Func = Inl (UnsupportedTypeError ''func()'')"

definition dec_sample :: "json \<Rightarrow> go_value option" where
  "dec_sample j = (if numbers_held j then Some (Generic j) else None)"

subsection \<open>Encoding and decoding a payload\<close>

text \<open>
  What a payload is after \<open>json.Marshal\<close> and \<open>json.Unmarshal\<close>, when the decoder
  accepts it: nil stays nil, a value whose JSON is \<open>null\<close> becomes nil, any other value
  becomes the generic value of its JSON. \<open>None\<close>: the decoder has no value for the JSON
  of the payload, or the payload has no JSON.
\<close>

definition read_back ::
  "('v \<Rightarrow> go_error + json) \<Rightarrow> (json \<Rightarrow> 'v option) \<Rightarrow> 'v option \<Rightarrow> 'v option option" where
  "read_back enc dec x =
     (case x of
        None \<Rightarrow> Some None
      | Some v \<Rightarrow>
          (case enc v of
             Inl err \<Rightarrow> None
           | Inr j \<Rightarrow> if j = JNull then Some None else map_option Some (dec j)))"

section \<open>White space only\<close>

text \<open>
  No white-space rune is the start of another, so the rune a string starts with is
  determined, and trimming ends with the empty string exactly for the strings that are
  white space only.
\<close>


lemma white_space_prefix_free:
  "list_all (\<lambda>p. list_all (\<lambda>q. prefix p q \<longrightarrow> p = q) white_space) white_space"
  by code_simp

lemma leading_space_unique:
  assumes "p \<in> set white_space" "q \<in> set white_space" "prefix p s" "prefix q s"
  shows "p = q"
proof -
  from assms(3,4) have "prefix p q \<or> prefix q p"
    by (rule prefix_same_cases)
  with white_space_prefix_free assms(1,2) show ?thesis
    by (auto simp: list_all_iff)
qed

lemma leading_space_SomeD:
  "leading_space s = Some p \<Longrightarrow> p \<in> set white_space \<and> s = p @ drop (length p) s"
  unfolding leading_space_def
  by (auto simp: find_Some_iff prefix_def)

lemma trailing_space_SomeD:
  "trailing_space s = Some p \<Longrightarrow> p \<in> set white_space \<and> s = take (length s - length p) s @ p"
  unfolding trailing_space_def
  by (auto simp: find_Some_iff suffix_def)

lemma leading_space_app:
  assumes "p \<in> set white_space"
  shows "leading_space (p @ s) = Some p"
proof (cases "leading_space (p @ s)")
  case None
  with assms show ?thesis
    by (auto simp: leading_space_def find_None_iff)
next
  case (Some q)
  then have "q \<in> set white_space" "prefix q (p @ s)"
    by (auto simp: leading_space_def find_Some_iff)
  with assms have "p = q" by (auto intro: leading_space_unique [of p q "p @ s"])
  with Some show ?thesis by simp
qed

lemma leading_space_Nil: "leading_space [] = None"
  by (auto simp: leading_space_def find_None_iff dest: white_space_nonempty)

lemma trailing_space_Nil: "trailing_space [] = None"
  by (auto simp: trailing_space_def find_None_iff dest: white_space_nonempty)

lemma TrimLeft_Nil_imp: "TrimLeft s = [] \<Longrightarrow> space_only s"
proof (induction s rule: TrimLeft.induct)
  case (1 s)
  show ?case
  proof (cases "leading_space s")
    case None
    with "1.prems" show ?thesis by (simp add: TrimLeft.simps space_only_Nil)
  next
    case (Some p)
    with "1.prems" have "TrimLeft (drop (length p) s) = []"
      by (simp add: TrimLeft.simps)
    with "1.IH" Some have "space_only (drop (length p) s)" by simp
    moreover from Some have "p \<in> set white_space" "s = p @ drop (length p) s"
      using leading_space_SomeD by blast+
    ultimately show ?thesis using space_only_App by metis
  qed
qed

lemma space_only_TrimLeft: "space_only s \<Longrightarrow> TrimLeft s = []"
proof (induction rule: space_only.induct)
  case space_only_Nil
  show ?case by (simp add: TrimLeft.simps leading_space_Nil)
next
  case (space_only_App p s)
  then show ?case
    by (subst TrimLeft.simps) (simp add: leading_space_app)
qed

lemma TrimLeft_stops: "leading_space (TrimLeft s) = None"
proof (induction s rule: TrimLeft.induct)
  case (1 s)
  then show ?case
    by (cases "leading_space s") (simp_all add: TrimLeft.simps)
qed

lemma TrimLeft_idem: "TrimLeft (TrimLeft s) = TrimLeft s"
  by (subst TrimLeft.simps) (simp add: TrimLeft_stops)

lemma space_only_append: "space_only s \<Longrightarrow> space_only t \<Longrightarrow> space_only (s @ t)"
  by (induction rule: space_only.induct) (auto intro: space_only.intros)

lemma space_only_single: "p \<in> set white_space \<Longrightarrow> space_only p"
  using space_only_App [OF _ space_only_Nil] by simp

lemma TrimRight_Nil_imp: "TrimRight s = [] \<Longrightarrow> space_only s"
proof (induction s rule: TrimRight.induct)
  case (1 s)
  show ?case
  proof (cases "trailing_space s")
    case None
    with "1.prems" show ?thesis by (simp add: TrimRight.simps space_only_Nil)
  next
    case (Some p)
    with "1.prems" have "TrimRight (take (length s - length p) s) = []"
      by (simp add: TrimRight.simps)
    with "1.IH" Some have "space_only (take (length s - length p) s)" by simp
    moreover from Some have "p \<in> set white_space" "s = take (length s - length p) s @ p"
      using trailing_space_SomeD by blast+
    ultimately show ?thesis using space_only_append space_only_single by metis
  qed
qed

lemma TrimSpace_empty_iff: "TrimSpace s = [] \<longleftrightarrow> space_only s"
proof
  assume "TrimSpace s = []"
  then have "space_only (TrimLeft s)"
    by (simp add: TrimSpace_def TrimRight_Nil_imp)
  then have "TrimLeft (TrimLeft s) = []" by (rule space_only_TrimLeft)
  then show "space_only s" by (simp add: TrimLeft_idem TrimLeft_Nil_imp)
next
  assume "space_only s"
  then have "TrimLeft s = []" by (rule space_only_TrimLeft)
  then show "TrimSpace s = []"
    by (simp add: TrimSpace_def TrimRight.simps trailing_space_Nil)
qed

lemma TrimSpace_Nil: "TrimSpace [] = []"
  by (simp add: TrimSpace_empty_iff space_only_Nil)

lemma NewAPIResponse_fields:
  "StatusCode (NewAPIResponse s b m c d) = s"
  "Success (NewAPIResponse s b m c d) = b"
  "Message (NewAPIResponse s b m c d) = m"
  "ErrorCode (NewAPIResponse s b m c d) = (if space_only c then None else Some c)"
  "Data (NewAPIResponse s b m c d) = d"
  "Meta (NewAPIResponse s b m c d) = None"
  by (simp_all add: NewAPIResponse_def TrimSpace_empty_iff)

text \<open>
  Claim C1. \<open>Error\<close> with a status code below 400 panics. With a status code of 400 or
  more it returns the envelope of \<open>NewAPIResponse\<close> for this status code, message and error
  code with success false and no data: its \<open>Success\<close> is false and its \<open>Data\<close> is nil.
\<close>
theorem Error_status_code:
  "(s < 400 \<longrightarrow>
      (Error s msg errorCode :: panic + 'v APIResponse) = Inl (Panic
        ''response error: cant set an error response with a non-error http status code''))
   \<and> (400 \<le> s \<longrightarrow>
      (Error s msg errorCode :: panic + 'v APIResponse)
         = Inr (NewAPIResponse s False msg errorCode None)
      \<and> (\<exists>r :: 'v APIResponse. Error s msg errorCode = Inr r \<and> Success r = False \<and> Data r = None
            \<and> StatusCode r = s \<and> Message r = msg))"
  by (simp add: Error_def StatusBadRequest_def NewAPIResponse_fields)

theorem Error_status_code_witness:
  "(200::int) < 400 \<and> (400::int) \<le> 404
   \<and> (Error 200 ''new-error'' [] :: panic + go_value APIResponse) = Inl (Panic
        ''response error: cant set an error response with a non-error http status code'')
   \<and> (Error 404 ''gone'' ''E1'' :: panic + go_value APIResponse)
        = Inr (NewAPIResponse 404 False ''gone'' ''E1'' None)"
  using Error_status_code [of 200 "''new-error''" "[]", where ?'v = go_value]
    Error_status_code [of 404 "''gone''" "''E1''", where ?'v = go_value]
  by simp

text \<open>
  Claim C2. \<open>Success\<close> with a status code of 400 or more panics. With a status code below
  400 it returns the envelope of \<open>NewAPIResponse\<close> for success true and the empty error
  code: its \<open>Success\<close> is true and its \<open>ErrorCode\<close> is nil.
\<close>
theorem Success_status_code:
  "(400 \<le> s \<longrightarrow>
      Success_func s msg data = Inl (Panic
        ''response error: cant set a success response with an error http status code''))
   \<and> (s < 400 \<longrightarrow>
      Success_func s msg data
        = Inr (NewAPIResponse s True (if msg = [] then ''Request was successful'' else msg) [] data)
      \<and> (\<exists>r. Success_func s msg data = Inr r \<and> Success r = True \<and> ErrorCode r = None
            \<and> StatusCode r = s \<and> Data r = data))"
  by (simp add: Success_func_def StatusBadRequest_def Let_def NewAPIResponse_fields space_only_Nil)

theorem Success_status_code_witness:
  "(400::int) \<le> 400 \<and> (200::int) < 400
   \<and> Success_func 400 [] (Some Func) = Inl (Panic
        ''response error: cant set a success response with an error http status code'')
   \<and> (\<exists>r. Success_func 200 ''new-success'' (Some (Generic (JString ''hello world''))) = Inr r
          \<and> Success r = True \<and> ErrorCode r = None \<and> StatusCode r = 200
          \<and> Data r = Some (Generic (JString ''hello world'')))"
proof -
  have lt: "(200::int) < 400" by simp
  have bad: "Success_func 400 [] (Some Func) = Inl (Panic
        ''response error: cant set a success response with an error http status code'')"
    using Success_status_code [of 400 "[]" "Some Func", THEN conjunct1] by simp
  have good: "\<exists>r. Success_func 200 ''new-success'' (Some (Generic (JString ''hello world''))) = Inr r
          \<and> Success r = True \<and> ErrorCode r = None \<and> StatusCode r = 200
          \<and> Data r = Some (Generic (JString ''hello world''))"
    using Success_status_code
      [of 200 "''new-success''" "Some (Generic (JString ''hello world''))", THEN conjunct2,
        rule_format, OF lt, THEN conjunct2]
    by simp
  from bad good show ?thesis by simp
qed

lemma one_space: "space_only '' ''"
  using space_only_App [of "'' ''" "[]"] by (simp add: white_space_def space_only_Nil)

text \<open>
  Claim C3, as the code has it. \<open>NewAPIResponse\<close> keeps an error code that is not white
  space only, as it was given; for an error code that is empty or white space only the
  envelope has no error code; so the error code of the envelope is never the empty string.
\<close>
theorem NewAPIResponse_errorCode:
  "(\<not> space_only c \<longrightarrow> ErrorCode (NewAPIResponse s b m c d) = Some c)
   \<and> (space_only c \<longrightarrow> ErrorCode (NewAPIResponse s b m c d) = None)
   \<and> ErrorCode (NewAPIResponse s b m c d) \<noteq> Some []"
  by (auto simp: NewAPIResponse_fields space_only_Nil)

lemma AUTH_not_space_only: "\<not> space_only ''AUTH_001''"
  unfolding TrimSpace_empty_iff [symmetric] by code_simp

theorem NewAPIResponse_errorCode_witness:
  "\<not> space_only ''AUTH_001'' \<and> space_only '' ''
   \<and> ErrorCode (NewAPIResponse 403 False ''Access denied'' ''AUTH_001'' (None :: go_value option))
       = Some ''AUTH_001''
   \<and> ErrorCode (NewAPIResponse 403 False ''Access denied'' '' '' (None :: go_value option)) = None"
  using NewAPIResponse_errorCode [of "''AUTH_001''" 403 False "''Access denied''" "None :: go_value option"]
    NewAPIResponse_errorCode [of "'' ''" 403 False "''Access denied''" "None :: go_value option"]
    AUTH_not_space_only one_space
  by simp

text \<open>
  The error code of one space is not empty, and the envelope does not hold it.
\<close>

theorem NewAPIResponse_errorCode_counterexample:
  "'' '' \<noteq> []
   \<and> ErrorCode (NewAPIResponse 400 False ''bad'' '' '' (None :: go_value option)) \<noteq> Some '' ''"
  by (simp add: NewAPIResponse_fields one_space)

lemma AUTH_padded_not_space_only: "\<not> space_only '' AUTH_001 ''"
  unfolding TrimSpace_empty_iff [symmetric] by code_simp

lemma AUTH_padded_trimmed: "TrimSpace '' AUTH_001 '' = ''AUTH_001''"
  by code_simp

text \<open>
  Claim C10. An error code with a character that is not white space is stored as it was
  given, white space around it included: where trimming would change it, the stored value
  is not the trimmed one.
\<close>

theorem NewAPIResponse_errorCode_verbatim:
  "\<not> space_only c \<Longrightarrow>
     ErrorCode (NewAPIResponse s b m c d) = Some c
     \<and> (TrimSpace c \<noteq> c \<longrightarrow> ErrorCode (NewAPIResponse s b m c d) \<noteq> Some (TrimSpace c))"
  by (simp add: NewAPIResponse_fields)

theorem NewAPIResponse_errorCode_verbatim_witness:
  "\<not> space_only '' AUTH_001 '' \<and> TrimSpace '' AUTH_001 '' \<noteq> '' AUTH_001 ''
   \<and> ErrorCode (NewAPIResponse 403 False ''Access denied'' '' AUTH_001 '' (None :: go_value option))
       = Some '' AUTH_001 ''
   \<and> ErrorCode (NewAPIResponse 403 False ''Access denied'' '' AUTH_001 '' (None :: go_value option))
       \<noteq> Some ''AUTH_001''"
  using NewAPIResponse_errorCode_verbatim
      [OF AUTH_padded_not_space_only, of 403 False "''Access denied''" "None :: go_value option"]
    AUTH_padded_not_space_only AUTH_padded_trimmed
  by simp

text \<open>
  Claim C9. \<open>List\<close> with an empty message returns the envelope with status code 200,
  success true, the message "Request was successful", no error code, the data it was given
  and the meta it was given. \<open>Success\<close> with an empty message and a status code it accepts
  returns an envelope with the same message.
\<close>
theorem List_default_message:
  "List_func [] data meta =
     \<lparr>StatusCode = 200, Success = True, Message = ''Request was successful'',
      ErrorCode = None, Data = data, Meta = meta\<rparr>
   \<and> (s < 400 \<longrightarrow>
        (\<exists>r. Success_func s [] d = Inr r \<and> Message r = ''Request was successful''))"
  by (simp add: List_func_def Success_func_def NewAPIResponse_def TrimSpace_Nil StatusOK_def
      StatusBadRequest_def)

theorem List_default_message_witness:
  "(201::int) < 400
   \<and> List_func [] (Some (Generic (JArray [JString ''John'']))) (Some (Generic (JNumber ''10''))) =
     \<lparr>StatusCode = 200, Success = True, Message = ''Request was successful'',
      ErrorCode = None, Data = Some (Generic (JArray [JString ''John''])),
      Meta = Some (Generic (JNumber ''10''))\<rparr>
   \<and> (\<exists>r. Success_func 201 [] (Some NilSlice) = Inr r \<and> Message r = ''Request was successful'')"
  using List_default_message
      [of "Some (Generic (JArray [JString ''John'']))" "Some (Generic (JNumber ''10''))" 201
          "Some NilSlice"]
  by simp

section \<open>The classifier\<close>

lemma find_app:
  "List.find P (xs @ ys) = (case List.find P xs of None \<Rightarrow> List.find P ys | Some x \<Rightarrow> Some x)"
  by (induction xs) auto

lemma find_holds: "List.find P xs = Some x \<Longrightarrow> P x"
  by (auto simp: find_Some_iff)

lemma find_mem: "List.find P xs = Some x \<Longrightarrow> x \<in> set xs"
  by (auto simp: find_Some_iff)

lemma first_hit_concat:
  assumes "\<And>e. e \<in> set errs \<Longrightarrow>
             A e = (case List.find P (t e) of None \<Rightarrow> Absent | Some x \<Rightarrow> Present (f x))"
  shows "first_hit (map A errs) =
           (case List.find P (concat (map t errs)) of None \<Rightarrow> Absent | Some x \<Rightarrow> Present (f x))"
  using assms
proof (induction errs)
  case Nil
  show ?case by simp
next
  case (Cons a errs)
  have a: "A a = (case List.find P (t a) of None \<Rightarrow> Absent | Some x \<Rightarrow> Present (f x))"
    using Cons.prems by simp
  have rest: "first_hit (map A errs) =
      (case List.find P (concat (map t errs)) of None \<Rightarrow> Absent | Some x \<Rightarrow> Present (f x))"
    using Cons.IH Cons.prems by simp
  show ?case
    by (cases "List.find P (t a)") (simp_all add: a rest find_app)
qed

lemma first_hit_member:
  assumes "\<And>e. e \<in> set errs \<Longrightarrow> A e = (if Q e then Present () else Absent)"
  shows "first_hit (map A errs) = (if \<exists>e\<in>set errs. Q e then Present () else Absent)"
  using assms by (induction errs) auto

lemma no_nil_pointer_cause:
  "no_nil_pointer (UnmarshalTypeError v t off st f (Some err)) \<Longrightarrow> no_nil_pointer err"
  by (simp add: no_nil_pointer_def wraps_def)

lemma no_nil_pointer_Wrap: "no_nil_pointer (Wrap text err) \<Longrightarrow> no_nil_pointer err"
  by (simp add: no_nil_pointer_def wraps_def)

lemma no_nil_pointer_Join: "no_nil_pointer (Join errs) \<Longrightarrow> e \<in> set errs \<Longrightarrow> no_nil_pointer e"
  by (auto simp: no_nil_pointer_def wraps_def list_ex_iff)

lemma no_nil_pointer_leaf:
  "\<not> no_nil_pointer NilSyntaxError" "\<not> no_nil_pointer NilUnmarshalTypeError"
  by (simp_all add: no_nil_pointer_def wraps_def)

lemma As_SyntaxError_tree:
  "no_nil_pointer err \<Longrightarrow>
   As_SyntaxError err =
     (case List.find is_SyntaxError (tree err) of
        None \<Rightarrow> Absent | Some e \<Rightarrow> Present (syntax_fields e))"
proof (induction err rule: tree.induct)
  case (1 v t off st f err)
  then show ?case by (simp add: no_nil_pointer_cause)
next
  case (2 w err)
  then show ?case by (simp add: no_nil_pointer_Wrap)
next
  case (3 errs)
  then show ?case
    using first_hit_concat [where errs = errs and A = As_SyntaxError and P = is_SyntaxError
        and t = tree and f = syntax_fields]
    by (simp add: no_nil_pointer_Join)
qed (simp_all add: no_nil_pointer_leaf)

lemma As_UnmarshalTypeError_tree:
  "no_nil_pointer err \<Longrightarrow>
   As_UnmarshalTypeError err =
     (case List.find is_UnmarshalTypeError (tree err) of
        None \<Rightarrow> Absent | Some e \<Rightarrow> Present (type_fields e))"
proof (induction err rule: tree.induct)
  case (1 v t off st f err)
  then show ?case by simp
next
  case (2 w err)
  then show ?case by (simp add: no_nil_pointer_Wrap)
next
  case (3 errs)
  then show ?case
    using first_hit_concat [where errs = errs and A = As_UnmarshalTypeError
        and P = is_UnmarshalTypeError and t = tree and f = type_fields]
    by (simp add: no_nil_pointer_Join)
qed (simp_all add: no_nil_pointer_leaf)

lemma Is_tree:
  "no_nil_pointer err \<Longrightarrow>
   Is err target = (if target \<in> set (tree err) then Present () else Absent)"
proof (induction err rule: tree.induct)
  case (1 v t off st f err)
  then show ?case by (simp add: no_nil_pointer_cause)
next
  case (2 w err)
  then show ?case by (simp add: no_nil_pointer_Wrap)
next
  case (3 errs)
  then show ?case
    using first_hit_member [where errs = errs and A = "\<lambda>e. Is e target"
        and Q = "\<lambda>e. target \<in> set (tree e)"]
    by (simp add: no_nil_pointer_Join)
qed (auto simp: no_nil_pointer_leaf)

lemma is_SyntaxError_fields: "is_SyntaxError x \<Longrightarrow> \<exists>msg off. syntax_fields x = Some (msg, off)"
  by (cases x) simp_all

lemma is_UnmarshalTypeError_fields:
  "is_UnmarshalTypeError x \<Longrightarrow> \<exists>f off. type_fields x = Some (f, off)"
  by (cases x) simp_all

lemma As_SyntaxError_Absent_iff:
  "no_nil_pointer err \<Longrightarrow> As_SyntaxError err = Absent \<longleftrightarrow> \<not> wraps is_SyntaxError err"
  by (auto simp: As_SyntaxError_tree wraps_def list_ex_iff find_None_iff
      dest: find_holds find_mem split: option.splits)

lemma As_SyntaxError_Present:
  "no_nil_pointer err \<Longrightarrow> wraps is_SyntaxError err \<Longrightarrow>
   \<exists>msg off. As_SyntaxError err = Present (Some (msg, off))"
  by (auto simp: As_SyntaxError_tree wraps_def list_ex_iff find_None_iff
      dest: find_holds is_SyntaxError_fields split: option.splits)

lemma As_UnmarshalTypeError_Absent_iff:
  "no_nil_pointer err \<Longrightarrow>
   As_UnmarshalTypeError err = Absent \<longleftrightarrow> \<not> wraps is_UnmarshalTypeError err"
  by (auto simp: As_UnmarshalTypeError_tree wraps_def list_ex_iff find_None_iff
      dest: find_holds find_mem split: option.splits)

lemma As_UnmarshalTypeError_Present:
  "no_nil_pointer err \<Longrightarrow> wraps is_UnmarshalTypeError err \<Longrightarrow>
   \<exists>f off. As_UnmarshalTypeError err = Present (Some (f, off))"
  by (auto simp: As_UnmarshalTypeError_tree wraps_def list_ex_iff find_None_iff
      dest: find_holds is_UnmarshalTypeError_fields split: option.splits)

lemma Is_wraps:
  "no_nil_pointer err \<Longrightarrow>
   Is err target = (if wraps (\<lambda>e. e = target) err then Present () else Absent)"
  by (auto simp: Is_tree wraps_def list_ex_iff)


lemma of_char_digit: "n < 10 \<Longrightarrow> (of_char (digit n) :: nat) = 48 + n"
proof -
  assume "n < 10"
  then have "n \<in> {0, 1, 2, 3, 4, 5, 6, 7, 8, 9}" by auto
  then show ?thesis by (auto simp: digit_def)
qed

lemma decimal_digits: "decimal (digits n) = n"
proof (induction n rule: digits.induct)
  case (1 n)
  show ?case
  proof (cases "n < 10")
    case True
    then show ?thesis
      by (subst digits.simps) (simp add: decimal_def of_char_digit)
  next
    case False
    with "1.IH" have "decimal (digits (n div 10)) = n div 10" by simp
    with False show ?thesis
      by (subst digits.simps) (simp add: decimal_def of_char_digit)
  qed
qed

lemma fmt_d_5: "fmt_d 5 = ''5''" by code_simp
lemma fmt_d_90: "fmt_d 90 = ''90''" by code_simp

lemma quote_byte_plain:
  "0x20 \<le> (of_char c :: nat) \<Longrightarrow> (of_char c :: nat) < 0x7F \<Longrightarrow> c \<noteq> CHR 0x22 \<Longrightarrow> c \<noteq> CHR 0x5C
   \<Longrightarrow> quote_byte c = [c]"
  by (simp add: quote_byte_def)

lemma concat_quote_plain: "plain s \<Longrightarrow> concat (map quote_byte s) = s"
  by (induction s) (simp_all add: plain_def quote_byte_plain)

lemma plain_ascii: "plain s \<Longrightarrow> list_all (\<lambda>c. (of_char c :: nat) < 0x80) s"
  by (induction s) (simp_all add: plain_def)

lemma fmt_q_plain: "plain s \<Longrightarrow> fmt_q qu s = [CHR 0x22] @ s @ [CHR 0x22]"
  by (simp add: fmt_q_def plain_ascii concat_quote_plain)

lemma plain_age: "plain ''age''" by (simp add: plain_def)

lemma type_mismatch_cause:
  assumes "no_nil_pointer e'" "\<not> wraps is_SyntaxError e'"
    "\<not> wraps (\<lambda>x. x = ErrUnexpectedEOF) e'"
  shows "IsJsonErrorGetDetails qu (Some (UnmarshalTypeError v t off st f (Some e'))) =
     Inr (True, Some (ErrorString (''body contains incorrect JSON type [for field '' @ fmt_q qu f
        @ ''] (at character '' @ fmt_d off @ '')'')))"
proof -
  from assms have "As_SyntaxError e' = Absent"
    by (simp add: As_SyntaxError_Absent_iff)
  moreover from assms have "Is e' ErrUnexpectedEOF = Absent"
    by (simp add: Is_wraps)
  ultimately show ?thesis
    by (simp add: IsJsonErrorGetDetails_def)
qed

text \<open>
  Claim C6, as the code has it. A syntax error with offset \<open>o\<close> gives true and "body
  contains badly-formed JSON (at character o)", the offset in decimal. A type-mismatch
  error with field \<open>f\<close> and offset \<open>o\<close>, whose cause \<open>Err\<close> is nil or neither is nor
  wraps a syntax error, \<open>io.ErrUnexpectedEOF\<close> or a nil pointer, gives true and "body
  contains incorrect JSON type [for field q] (at character o)", where \<open>q\<close> is \<open>f\<close> as the
  verb \<open>%q\<close> writes it: for a field of printable ASCII characters without double quote
  and backslash, \<open>f\<close> between double quotes. \<open>io.EOF\<close> gives true and "body must not be
  empty".
\<close>
theorem IsJsonErrorGetDetails_messages:
  "IsJsonErrorGetDetails qu (Some (SyntaxError msg off)) =
     Inr (True, Some (ErrorString
       (''body contains badly-formed JSON (at character '' @ fmt_d off @ '')'')))
   \<and> IsJsonErrorGetDetails qu (Some (UnmarshalTypeError v t off' st f None)) =
     Inr (True, Some (ErrorString (''body contains incorrect JSON type [for field '' @ fmt_q qu f
        @ ''] (at character '' @ fmt_d off' @ '')'')))
   \<and> (no_nil_pointer e' \<and> \<not> wraps is_SyntaxError e' \<and> \<not> wraps (\<lambda>x. x = ErrUnexpectedEOF) e'
        \<longrightarrow> IsJsonErrorGetDetails qu (Some (UnmarshalTypeError v t off' st f (Some e'))) =
     Inr (True, Some (ErrorString (''body contains incorrect JSON type [for field '' @ fmt_q qu f
        @ ''] (at character '' @ fmt_d off' @ '')''))))
   \<and> (plain f \<longrightarrow> IsJsonErrorGetDetails qu (Some (UnmarshalTypeError v t off' st f None)) =
     Inr (True, Some (ErrorString (''body contains incorrect JSON type [for field '' @ [CHR 0x22] @ f
        @ [CHR 0x22] @ ''] (at character '' @ fmt_d off' @ '')''))))
   \<and> IsJsonErrorGetDetails qu (Some EOF) = Inr (True, Some (ErrorString ''body must not be empty''))"
  using type_mismatch_cause [of e' qu v t off' st f]
  by (simp add: IsJsonErrorGetDetails_def fmt_q_plain)

theorem IsJsonErrorGetDetails_messages_witness:
  "plain ''age''
   \<and> no_nil_pointer (ErrorString ''strconv.ParseFloat: value out of range'')
   \<and> \<not> wraps is_SyntaxError (ErrorString ''strconv.ParseFloat: value out of range'')
   \<and> \<not> wraps (\<lambda>x. x = ErrUnexpectedEOF) (ErrorString ''strconv.ParseFloat: value out of range'')
   \<and> IsJsonErrorGetDetails id (Some (SyntaxError ''invalid character'' 5)) =
     Inr (True, Some (ErrorString ''body contains badly-formed JSON (at character 5)''))
   \<and> IsJsonErrorGetDetails id
       (Some (UnmarshalTypeError ''number'' ''string'' 90 ''Person'' ''age'' None)) =
     Inr (True, Some (ErrorString (''body contains incorrect JSON type [for field '' @ [CHR 0x22]
        @ ''age'' @ [CHR 0x22] @ ''] (at character 90)'')))
   \<and> IsJsonErrorGetDetails id
       (Some (UnmarshalTypeError ''number'' ''string'' 90 ''Person'' ''age''
          (Some (ErrorString ''strconv.ParseFloat: value out of range'')))) =
     Inr (True, Some (ErrorString (''body contains incorrect JSON type [for field '' @ [CHR 0x22]
        @ ''age'' @ [CHR 0x22] @ ''] (at character 90)'')))
   \<and> IsJsonErrorGetDetails id (Some EOF) = Inr (True, Some (ErrorString ''body must not be empty''))"
proof -
  let ?cause = "ErrorString ''strconv.ParseFloat: value out of range''"
  note inst = IsJsonErrorGetDetails_messages
      [of id "''invalid character''" 5 "''number''" "''string''" 90 "''Person''" "''age''" ?cause]
  have clean: "no_nil_pointer ?cause \<and> \<not> wraps is_SyntaxError ?cause
      \<and> \<not> wraps (\<lambda>x. x = ErrUnexpectedEOF) ?cause"
    by (simp add: no_nil_pointer_def wraps_def)
  have syn: "IsJsonErrorGetDetails id (Some (SyntaxError ''invalid character'' 5)) =
     Inr (True, Some (ErrorString ''body contains badly-formed JSON (at character 5)''))"
    using inst [THEN conjunct1] by (simp add: fmt_d_5)
  have ty:
    "IsJsonErrorGetDetails id
       (Some (UnmarshalTypeError ''number'' ''string'' 90 ''Person'' ''age'' None)) =
     Inr (True, Some (ErrorString (''body contains incorrect JSON type [for field '' @ [CHR 0x22]
        @ ''age'' @ [CHR 0x22] @ ''] (at character 90)'')))"
    using inst [THEN conjunct2, THEN conjunct2, THEN conjunct2, THEN conjunct1, rule_format,
        OF plain_age]
    by (simp add: fmt_d_90)
  have cause:
    "IsJsonErrorGetDetails id
       (Some (UnmarshalTypeError ''number'' ''string'' 90 ''Person'' ''age'' (Some ?cause))) =
     Inr (True, Some (ErrorString (''body contains incorrect JSON type [for field '' @ [CHR 0x22]
        @ ''age'' @ [CHR 0x22] @ ''] (at character 90)'')))"
    using inst [THEN conjunct2, THEN conjunct2, THEN conjunct1, rule_format, OF clean]
    by (simp add: fmt_d_90 fmt_q_plain plain_age)
  have eof:
    "IsJsonErrorGetDetails id (Some EOF) = Inr (True, Some (ErrorString ''body must not be empty''))"
    using inst [THEN conjunct2, THEN conjunct2, THEN conjunct2, THEN conjunct2] by simp
  from plain_age clean syn ty cause eof show ?thesis by blast
qed

text \<open>
  A type-mismatch error whose cause is \<open>io.ErrUnexpectedEOF\<close> gets the message of the
  case tried before; and a field with a double quote in it is not written between double
  quotes as it is, \<open>%q\<close> escapes the quote.
\<close>

lemma IsJsonErrorGetDetails_cause_unexpected_EOF:
  "IsJsonErrorGetDetails id
     (Some (UnmarshalTypeError ''number'' ''string'' 90 ''Person'' ''age'' (Some ErrUnexpectedEOF)))
   = Inr (True, Some (ErrorString ''body contains badly-formed JSON''))"
  by (simp add: IsJsonErrorGetDetails_def)

lemma IsJsonErrorGetDetails_quoted:
  "IsJsonErrorGetDetails id
     (Some (UnmarshalTypeError ''number'' ''string'' 90 ''Person'' [CHR ''a'', CHR 0x22, CHR ''b'']
        None))
   = Inr (True, Some (ErrorString (''body contains incorrect JSON type [for field '' @ [CHR 0x22]
        @ [CHR ''a'', CHR 0x5C, CHR 0x22, CHR ''b''] @ [CHR 0x22] @ ''] (at character 90)'')))"
  by (simp add: IsJsonErrorGetDetails_def fmt_q_def quote_byte_def fmt_d_90)

theorem IsJsonErrorGetDetails_messages_counterexample:
  "IsJsonErrorGetDetails id
     (Some (UnmarshalTypeError ''number'' ''string'' 90 ''Person'' ''age'' (Some ErrUnexpectedEOF)))
   \<noteq> Inr (True, Some (ErrorString (''body contains incorrect JSON type [for field '' @ [CHR 0x22]
        @ ''age'' @ [CHR 0x22] @ ''] (at character 90)'')))
   \<and> IsJsonErrorGetDetails id
     (Some (UnmarshalTypeError ''number'' ''string'' 90 ''Person'' [CHR ''a'', CHR 0x22, CHR ''b'']
        None))
   \<noteq> Inr (True, Some (ErrorString (''body contains incorrect JSON type [for field '' @ [CHR 0x22]
        @ [CHR ''a'', CHR 0x22, CHR ''b''] @ [CHR 0x22] @ ''] (at character 90)'')))"
  by (simp add: IsJsonErrorGetDetails_cause_unexpected_EOF IsJsonErrorGetDetails_quoted)

lemma IsJsonErrorGetDetails_no_panic:
  assumes "no_nil_pointer e"
  shows "\<exists>ok d. IsJsonErrorGetDetails qu (Some e) = Inr (ok, d)"
proof -
  have 1: "As_SyntaxError e = Absent \<or> (\<exists>msg off. As_SyntaxError e = Present (Some (msg, off)))"
    using As_SyntaxError_Absent_iff [OF assms] As_SyntaxError_Present [OF assms] by blast
  have 2: "Is e ErrUnexpectedEOF = Absent \<or> Is e ErrUnexpectedEOF = Present ()"
    by (simp add: Is_wraps [OF assms])
  have 3: "As_UnmarshalTypeError e = Absent
      \<or> (\<exists>f off. As_UnmarshalTypeError e = Present (Some (f, off)))"
    using As_UnmarshalTypeError_Absent_iff [OF assms] As_UnmarshalTypeError_Present [OF assms]
    by blast
  have 4: "Is e EOF = Absent \<or> Is e EOF = Present ()"
    by (simp add: Is_wraps [OF assms])
  from 1 2 3 4 show ?thesis
    by (auto simp: IsJsonErrorGetDetails_def)
qed

lemma IsJsonErrorGetDetails_false:
  "IsJsonErrorGetDetails qu err = Inr (False, d) \<Longrightarrow> d = err"
  by (auto simp: IsJsonErrorGetDetails_def split: option.splits lookup.splits)

text \<open>
  Claim C7, as the code has it. For nil the result is false and nil. For an error that
  neither is nor wraps a nil pointer the call returns a result pair. When such an error
  neither is nor wraps a syntax error, \<open>io.ErrUnexpectedEOF\<close>, a type-mismatch error or
  \<open>io.EOF\<close>, it comes back as it is, with false; an error of \<open>errors.New\<close> is one.
  Whenever the flag is false the error returned is the argument.
\<close>
theorem IsJsonErrorGetDetails_passthrough:
  "IsJsonErrorGetDetails qu None = Inr (False, None)
   \<and> (no_nil_pointer e \<longrightarrow> (\<exists>ok d. IsJsonErrorGetDetails qu (Some e) = Inr (ok, d)))
   \<and> (no_nil_pointer e \<and> \<not> wraps is_SyntaxError e \<and> \<not> wraps (\<lambda>x. x = ErrUnexpectedEOF) e
        \<and> \<not> wraps is_UnmarshalTypeError e \<and> \<not> wraps (\<lambda>x. x = EOF) e
      \<longrightarrow> IsJsonErrorGetDetails qu (Some e) = Inr (False, Some e))
   \<and> IsJsonErrorGetDetails qu (Some (ErrorString x)) = Inr (False, Some (ErrorString x))
   \<and> (IsJsonErrorGetDetails qu err = Inr (False, d) \<longrightarrow> d = err)"
  using IsJsonErrorGetDetails_no_panic [of e qu] IsJsonErrorGetDetails_false [of qu err d]
  by (auto simp: IsJsonErrorGetDetails_def As_SyntaxError_Absent_iff [symmetric]
      As_UnmarshalTypeError_Absent_iff [symmetric] Is_wraps)

theorem IsJsonErrorGetDetails_passthrough_witness:
  "no_nil_pointer (Wrap ''query: timeout'' (ErrorString ''timeout''))
   \<and> \<not> wraps is_SyntaxError (Wrap ''query: timeout'' (ErrorString ''timeout''))
   \<and> \<not> wraps (\<lambda>x. x = ErrUnexpectedEOF) (Wrap ''query: timeout'' (ErrorString ''timeout''))
   \<and> \<not> wraps is_UnmarshalTypeError (Wrap ''query: timeout'' (ErrorString ''timeout''))
   \<and> \<not> wraps (\<lambda>x. x = EOF) (Wrap ''query: timeout'' (ErrorString ''timeout''))
   \<and> IsJsonErrorGetDetails id (Some (Wrap ''query: timeout'' (ErrorString ''timeout'')))
       = Inr (False, Some (Wrap ''query: timeout'' (ErrorString ''timeout'')))
   \<and> IsJsonErrorGetDetails id (Some (ErrorString ''x'')) = Inr (False, Some (ErrorString ''x''))
   \<and> IsJsonErrorGetDetails id None = Inr (False, None)"
proof -
  let ?e = "Wrap ''query: timeout'' (ErrorString ''timeout'')"
  note inst = IsJsonErrorGetDetails_passthrough
      [of id ?e "''x''" "Some (ErrorString ''x'')" "Some (ErrorString ''x'')"]
  have h: "no_nil_pointer ?e \<and> \<not> wraps is_SyntaxError ?e \<and> \<not> wraps (\<lambda>x. x = ErrUnexpectedEOF) ?e
        \<and> \<not> wraps is_UnmarshalTypeError ?e \<and> \<not> wraps (\<lambda>x. x = EOF) ?e"
    by (simp add: no_nil_pointer_def wraps_def)
  have r: "IsJsonErrorGetDetails id (Some ?e) = Inr (False, Some ?e)"
    using inst [THEN conjunct2, THEN conjunct2, THEN conjunct1, rule_format, OF h] .
  have x: "IsJsonErrorGetDetails id (Some (ErrorString ''x'')) = Inr (False, Some (ErrorString ''x''))"
    using inst [THEN conjunct2, THEN conjunct2, THEN conjunct2, THEN conjunct1] .
  have n: "IsJsonErrorGetDetails id None = Inr (False, None)"
    using inst [THEN conjunct1] .
  from h r x n show ?thesis by blast
qed

text \<open>
  On an \<open>error\<close> interface holding a nil \<open>*json.SyntaxError\<close>, and on an error that
  wraps a nil \<open>*json.UnmarshalTypeError\<close>, the call panics.
\<close>

theorem IsJsonErrorGetDetails_passthrough_counterexample:
  "IsJsonErrorGetDetails id (Some NilSyntaxError)
     = Inl (Panic ''runtime error: invalid memory address or nil pointer dereference'')
   \<and> IsJsonErrorGetDetails id (Some (Wrap ''decode body'' NilUnmarshalTypeError))
     = Inl (Panic ''runtime error: invalid memory address or nil pointer dereference'')"
  by (simp add: IsJsonErrorGetDetails_def nil_dereference_def)




section \<open>The JSON form of the envelope\<close>

lemma field_named_names:
  "field_named ''success'' = Some F_success"
  "field_named ''message'' = Some F_message"
  "field_named ''errorCode'' = Some F_errorCode"
  "field_named ''data'' = Some F_data"
  "field_named ''meta'' = Some F_meta"
  by (simp_all add: field_named_def json_fields_def)

lemma to_valid_utf8_Nil: "to_valid_utf8 [] = []"
  by (simp add: to_valid_utf8.simps)

lemma to_valid_utf8_eq_Nil: "to_valid_utf8 s = [] \<longleftrightarrow> s = []"
proof
  assume "to_valid_utf8 s = []"
  then show "s = []"
    by (subst (asm) to_valid_utf8.simps) (auto split: if_splits)
qed (simp add: to_valid_utf8_Nil)

lemma to_valid_utf8_valid: "valid_utf8 s \<Longrightarrow> to_valid_utf8 s = s"
proof (induction s rule: to_valid_utf8.induct)
  case (1 s)
  show ?case
  proof (cases "s = []")
    case True
    then show ?thesis by (simp add: to_valid_utf8_Nil)
  next
    case False
    with "1.prems" have w: "rune_width s \<noteq> 0" and rest: "valid_utf8 (drop (rune_width s) s)"
      by (subst (asm) valid_utf8.simps, simp split: if_splits)+
    from "1.IH"(2) [OF False w rest] False w show ?thesis
      by (subst to_valid_utf8.simps) simp
  qed
qed

lemma rune_width_ascii: "(of_char c :: nat) < 0x80 \<Longrightarrow> rune_width (c # s) = 1"
  by (simp add: rune_width_def)

lemma valid_utf8_ascii: "list_all (\<lambda>c. (of_char c :: nat) < 0x80) s \<Longrightarrow> valid_utf8 s"
  by (induction s) (simp_all add: valid_utf8.simps [of "[]"] valid_utf8.simps [of "_ # _"] rune_width_ascii)

lemma store_data:
  "store dec F_data j r =
     (if j = JNull then Some (r\<lparr>Data := None\<rparr>)
      else map_option (\<lambda>v. r\<lparr>Data := Some v\<rparr>) (dec j))"
  by (cases j) (simp_all split: option.splits)

lemma store_meta:
  "store dec F_meta j r =
     (if j = JNull then Some (r\<lparr>Meta := None\<rparr>)
      else map_option (\<lambda>v. r\<lparr>Meta := Some v\<rparr>) (dec j))"
  by (cases j) (simp_all split: option.splits)

lemma decode_members_append:
  "decode_members dec (xs @ ys) r =
     (case decode_members dec xs r of None \<Rightarrow> None | Some r' \<Rightarrow> decode_members dec ys r')"
  by (induction xs arbitrary: r) (auto split: option.splits)

lemma decode_head:
  "decode_members dec [(''success'', JBool b), (''message'', JString s)] zero_APIResponse =
     Some (zero_APIResponse\<lparr>Success := b, Message := s\<rparr>)"
  by (simp add: field_named_names)

lemma decode_errorCode:
  "decode_members dec (case c of None \<Rightarrow> [] | Some x \<Rightarrow> [(''errorCode'', JString (f x))]) r =
     Some (case c of None \<Rightarrow> r | Some x \<Rightarrow> r\<lparr>ErrorCode := Some (f x)\<rparr>)"
  by (cases c) (simp_all add: field_named_names)

lemma decode_data:
  assumes "marshal_any enc ''data'' x = Inr d"
  shows "decode_members dec d r =
     map_option (\<lambda>y. case x of None \<Rightarrow> r | Some v \<Rightarrow> r\<lparr>Data := y\<rparr>) (read_back enc dec x)"
  using assms
  by (cases x) (auto simp: marshal_any_def read_back_def field_named_names store_data
      split: sum.splits option.splits)

lemma decode_meta:
  assumes "marshal_any enc ''meta'' x = Inr m"
  shows "decode_members dec m r =
     map_option (\<lambda>y. case x of None \<Rightarrow> r | Some v \<Rightarrow> r\<lparr>Meta := y\<rparr>) (read_back enc dec x)"
  using assms
  by (cases x) (auto simp: marshal_any_def read_back_def field_named_names store_meta
      split: sum.splits option.splits)

lemma read_back_None: "read_back enc dec None = Some None"
  by (simp add: read_back_def)

lemma Marshal_InrD:
  assumes "Marshal enc r = Inr doc"
  shows "\<exists>d m. marshal_any enc ''data'' (Data r) = Inr d
           \<and> marshal_any enc ''meta'' (Meta r) = Inr m
           \<and> doc = JObject
                 ([(''success'', JBool (Success r)),
                   (''message'', JString (to_valid_utf8 (Message r)))]
                  @ (case ErrorCode r of
                       None \<Rightarrow> []
                     | Some c \<Rightarrow> [(''errorCode'', JString (to_valid_utf8 c))])
                  @ d @ m)"
  using assms by (auto simp: Marshal_def split: sum.splits)

lemma ToJson_Marshal: "ToJson enc r = Marshal enc r"
  by (simp add: ToJson_def split: sum.splits)

lemma FromJson_encoded:
  assumes "Marshal enc e = Inr doc"
  shows "FromJsonToAPIResponse dec doc =
     (if maxNestingDepth < nesting doc then None
      else
        (case read_back enc dec (Data e) of
           None \<Rightarrow> None
         | Some data \<Rightarrow>
             (case read_back enc dec (Meta e) of
                None \<Rightarrow> None
              | Some meta \<Rightarrow>
                  Some \<lparr>StatusCode = 0, Success = Success e,
                    Message = to_valid_utf8 (Message e),
                    ErrorCode = map_option to_valid_utf8 (ErrorCode e),
                    Data = data, Meta = meta\<rparr>)))"
proof -
  from Marshal_InrD [OF assms] obtain d m where
    d: "marshal_any enc ''data'' (Data e) = Inr d" and
    m: "marshal_any enc ''meta'' (Meta e) = Inr m" and
    doc: "doc = JObject
                 ([(''success'', JBool (Success e)),
                   (''message'', JString (to_valid_utf8 (Message e)))]
                  @ (case ErrorCode e of
                       None \<Rightarrow> []
                     | Some c \<Rightarrow> [(''errorCode'', JString (to_valid_utf8 c))])
                  @ d @ m)"
    by blast
  define H where "H = [(''success'', JBool (Success e)),
      (''message'', JString (to_valid_utf8 (Message e)))]"
  define E where "E = (case ErrorCode e of
      None \<Rightarrow> [] | Some c \<Rightarrow> [(''errorCode'', JString (to_valid_utf8 c))])"
  define r1 :: "'a APIResponse" where
    "r1 = zero_APIResponse\<lparr>Success := Success e, Message := to_valid_utf8 (Message e)\<rparr>"
  define r2 where
    "r2 = (case ErrorCode e of None \<Rightarrow> r1 | Some x \<Rightarrow> r1\<lparr>ErrorCode := Some (to_valid_utf8 x)\<rparr>)"
  have r2: "r2 = \<lparr>StatusCode = 0, Success = Success e, Message = to_valid_utf8 (Message e),
        ErrorCode = map_option to_valid_utf8 (ErrorCode e), Data = None, Meta = None\<rparr>"
    by (cases "ErrorCode e") (simp_all add: r2_def r1_def zero_APIResponse_def)
  have s1: "decode_members dec H zero_APIResponse = Some r1"
    unfolding H_def r1_def by (rule decode_head)
  have s2: "decode_members dec E r1 = Some r2"
    unfolding E_def r2_def by (rule decode_errorCode)
  have s12: "decode_members dec (H @ E) zero_APIResponse = Some r2"
    by (simp add: decode_members_append s1 s2)
  define ms where "ms = (H @ E) @ d @ m"
  have doc': "doc = JObject ms"
    by (simp add: doc H_def E_def ms_def)
  have members: "decode_members dec ms zero_APIResponse =
      (case read_back enc dec (Data e) of
           None \<Rightarrow> None
         | Some data \<Rightarrow>
             (case read_back enc dec (Meta e) of
                None \<Rightarrow> None
              | Some meta \<Rightarrow>
                  Some \<lparr>StatusCode = 0, Success = Success e,
                    Message = to_valid_utf8 (Message e),
                    ErrorCode = map_option to_valid_utf8 (ErrorCode e),
                    Data = data, Meta = meta\<rparr>))"
    unfolding ms_def decode_members_append [of dec "H @ E"] s12 decode_members_append [of dec d]
      decode_data [OF d] decode_meta [OF m] r2
    by (cases "Data e"; cases "Meta e")
      (auto simp: read_back_None split: option.splits)
  show ?thesis
    unfolding FromJsonToAPIResponse_def Unmarshal_def doc'
    by (simp add: members split: option.splits)
qed

text \<open>
  Claim C4, as the code has it. When \<open>ToJson\<close> succeeds on an envelope,
  \<open>FromJsonToAPIResponse\<close> succeeds on its output exactly when the output is not nested
  deeper than the decoder's limit and the decoder has a value for the JSON of data and of
  meta. The envelope it then returns has: the same success flag; the message and the error
  code coerced to valid UTF-8, so unchanged when they are valid UTF-8, and no error code
  when there was none; data and meta as they are read back, that is absent when they were
  absent or encoded as \<open>null\<close>, and otherwise the generic value of their JSON; the status
  code 0.
\<close>
theorem ToJson_FromJsonToAPIResponse:
  assumes "ToJson enc e = Inr doc"
  shows "(FromJsonToAPIResponse dec doc \<noteq> None \<longleftrightarrow>
            nesting doc \<le> maxNestingDepth
            \<and> read_back enc dec (Data e) \<noteq> None \<and> read_back enc dec (Meta e) \<noteq> None)
         \<and> (\<forall>e'. FromJsonToAPIResponse dec doc = Some e' \<longrightarrow>
               Success e' = Success e
               \<and> Message e' = to_valid_utf8 (Message e)
               \<and> (valid_utf8 (Message e) \<longrightarrow> Message e' = Message e)
               \<and> ErrorCode e' = map_option to_valid_utf8 (ErrorCode e)
               \<and> (\<forall>c. ErrorCode e = Some c \<and> valid_utf8 c \<longrightarrow> ErrorCode e' = Some c)
               \<and> (ErrorCode e = None \<longrightarrow> ErrorCode e' = None)
               \<and> read_back enc dec (Data e) = Some (Data e')
               \<and> read_back enc dec (Meta e) = Some (Meta e')
               \<and> StatusCode e' = 0)"
  using FromJson_encoded [OF assms [unfolded ToJson_Marshal], of dec]
  by (auto simp: to_valid_utf8_valid split: option.splits if_splits)


lemma ToJson_sample_nil_slice:
  "ToJson enc_sample
     \<lparr>StatusCode = 200, Success = True, Message = ''ok'', ErrorCode = None,
      Data = Some NilSlice, Meta = None\<rparr>
   = Inr (JObject [(''success'', JBool True), (''message'', JString ''ok''), (''data'', JNull)])"
  by (simp add: ToJson_def Marshal_def marshal_any_def to_valid_utf8_valid valid_utf8_ascii)

theorem ToJson_FromJsonToAPIResponse_witness:
  "ToJson enc_sample
     \<lparr>StatusCode = 200, Success = True, Message = ''ok'', ErrorCode = None,
      Data = Some NilSlice, Meta = None\<rparr>
   = Inr (JObject [(''success'', JBool True), (''message'', JString ''ok''), (''data'', JNull)])
   \<and> nesting (JObject [(''success'', JBool True), (''message'', JString ''ok''),
         (''data'', JNull)]) \<le> maxNestingDepth
   \<and> read_back enc_sample dec_sample (Some NilSlice) = Some None
   \<and> read_back enc_sample dec_sample None = Some None
   \<and> (\<exists>e'. FromJsonToAPIResponse dec_sample
          (JObject [(''success'', JBool True), (''message'', JString ''ok''), (''data'', JNull)])
          = Some e'
        \<and> Success e' = True \<and> Message e' = ''ok'' \<and> ErrorCode e' = None \<and> Data e' = None
        \<and> Meta e' = None \<and> StatusCode e' = 0)"
proof -
  let ?doc = "JObject [(''success'', JBool True), (''message'', JString ''ok''), (''data'', JNull)]"
  note inst = ToJson_FromJsonToAPIResponse [OF ToJson_sample_nil_slice, of dec_sample]
  have depth: "nesting ?doc \<le> maxNestingDepth"
    by (simp add: maxNestingDepth_def)
  have rb: "read_back enc_sample dec_sample (Some NilSlice) = Some None"
    "read_back enc_sample dec_sample None = Some None"
    by (simp_all add: read_back_def)
  from inst [THEN conjunct1] depth rb obtain e' where
    e': "FromJsonToAPIResponse dec_sample ?doc = Some e'"
    by auto
  from inst [THEN conjunct2, rule_format, OF e'] rb
  have "Success e' = True \<and> Message e' = ''ok'' \<and> ErrorCode e' = None \<and> Data e' = None
        \<and> Meta e' = None \<and> StatusCode e' = 0"
    by (simp add: to_valid_utf8_valid valid_utf8_ascii)
  with e' ToJson_sample_nil_slice depth rb show ?thesis by blast
qed

text \<open>
  Data that holds a nil slice is encoded as \<open>null\<close> and comes back as no data.
\<close>

theorem ToJson_FromJsonToAPIResponse_counterexample:
  "ToJson enc_sample
     \<lparr>StatusCode = 200, Success = True, Message = ''ok'', ErrorCode = None,
      Data = Some NilSlice, Meta = None\<rparr>
   = Inr (JObject [(''success'', JBool True), (''message'', JString ''ok''), (''data'', JNull)])
   \<and> FromJsonToAPIResponse dec_sample
       (JObject [(''success'', JBool True), (''message'', JString ''ok''), (''data'', JNull)])
     = Some \<lparr>StatusCode = 0, Success = True, Message = ''ok'', ErrorCode = None,
         Data = None, Meta = None\<rparr>
   \<and> Data \<lparr>StatusCode = 0, Success = True, Message = ''ok'', ErrorCode = None,
         Data = None :: go_value option, Meta = None\<rparr>
     \<noteq> Data \<lparr>StatusCode = 200, Success = True, Message = ''ok'', ErrorCode = None,
         Data = Some NilSlice, Meta = None\<rparr>"
  by (simp add: ToJson_sample_nil_slice FromJsonToAPIResponse_def Unmarshal_def
      zero_APIResponse_def field_named_names maxNestingDepth_def)

text \<open>
  Data that is written as the number \<open>1e400\<close> is not read back: no \<open>float64\<close> holds
  it.
\<close>

lemma float64_holds_1e400: "\<not> float64_holds ''1e400''"
  by (simp add: float64_holds_def decimal_def is_digit_def Let_def)

lemma ToJson_FromJsonToAPIResponse_number_overflow:
  "ToJson enc_sample
     \<lparr>StatusCode = 200, Success = True, Message = ''ok'', ErrorCode = None,
      Data = Some (Raw (JNumber ''1e400'')), Meta = None\<rparr>
   = Inr (JObject [(''success'', JBool True), (''message'', JString ''ok''),
        (''data'', JNumber ''1e400'')])
   \<and> FromJsonToAPIResponse dec_sample
       (JObject [(''success'', JBool True), (''message'', JString ''ok''),
        (''data'', JNumber ''1e400'')])
     = None"
  by (simp add: ToJson_def Marshal_def marshal_any_def to_valid_utf8_valid valid_utf8_ascii
      FromJsonToAPIResponse_def Unmarshal_def zero_APIResponse_def field_named_names
      maxNestingDepth_def dec_sample_def float64_holds_1e400)

text \<open>A message that is not valid UTF-8 comes back changed.\<close>

lemma to_valid_utf8_FF: "to_valid_utf8 [CHR 0xFF] = [CHR 0xEF, CHR 0xBF, CHR 0xBD]"
  by code_simp

lemma ToJson_FromJsonToAPIResponse_invalid_utf8:
  "ToJson enc_sample
     \<lparr>StatusCode = 200, Success = True, Message = [CHR 0xFF], ErrorCode = None,
      Data = None, Meta = None\<rparr>
   = Inr (JObject [(''success'', JBool True), (''message'', JString [CHR 0xEF, CHR 0xBF, CHR 0xBD])])
   \<and> FromJsonToAPIResponse dec_sample
       (JObject [(''success'', JBool True), (''message'', JString [CHR 0xEF, CHR 0xBF, CHR 0xBD])])
     = Some \<lparr>StatusCode = 0, Success = True, Message = [CHR 0xEF, CHR 0xBF, CHR 0xBD],
         ErrorCode = None, Data = None, Meta = None\<rparr>"
  by (simp add: ToJson_def Marshal_def marshal_any_def to_valid_utf8_FF
      FromJsonToAPIResponse_def Unmarshal_def zero_APIResponse_def field_named_names
      maxNestingDepth_def)

text \<open>
  Claim C5, as the code has it. The JSON of an envelope is an object whose members have
  distinct names among \<open>success\<close>, \<open>message\<close>, \<open>errorCode\<close>, \<open>data\<close> and \<open>meta\<close>,
  so never \<open>statusCode\<close>. \<open>success\<close> and \<open>message\<close> are always there. \<open>errorCode\<close>
  is there exactly when \<open>ErrorCode\<close> is not nil, with the error code, coerced to valid
  UTF-8, as its value: the value is the empty string only for a pointer to the empty
  string. \<open>data\<close> is there exactly when \<open>Data\<close> is not nil, \<open>meta\<close> exactly when
  \<open>Meta\<close> is not nil.
\<close>
theorem ToJson_members:
  assumes "ToJson enc r = Inr doc"
  shows "\<exists>members. doc = JObject members
          \<and> distinct (map fst members)
          \<and> map_of members ''success'' = Some (JBool (Success r))
          \<and> map_of members ''message'' = Some (JString (to_valid_utf8 (Message r)))
          \<and> map_of members ''errorCode''
               = map_option (\<lambda>c. JString (to_valid_utf8 c)) (ErrorCode r)
          \<and> (''errorCode'' \<in> fst ` set members \<longleftrightarrow> ErrorCode r \<noteq> None)
          \<and> (ErrorCode r \<noteq> Some [] \<longrightarrow> map_of members ''errorCode'' \<noteq> Some (JString []))
          \<and> (''data'' \<in> fst ` set members \<longleftrightarrow> Data r \<noteq> None)
          \<and> (''meta'' \<in> fst ` set members \<longleftrightarrow> Meta r \<noteq> None)
          \<and> fst ` set members \<subseteq> {''success'', ''message'', ''errorCode'', ''data'', ''meta''}
          \<and> ''statusCode'' \<notin> fst ` set members"
proof -
  from Marshal_InrD [OF assms [unfolded ToJson_Marshal]] obtain d m where
    d: "marshal_any enc ''data'' (Data r) = Inr d" and
    m: "marshal_any enc ''meta'' (Meta r) = Inr m" and
    doc: "doc = JObject
                 ([(''success'', JBool (Success r)),
                   (''message'', JString (to_valid_utf8 (Message r)))]
                  @ (case ErrorCode r of
                       None \<Rightarrow> []
                     | Some c \<Rightarrow> [(''errorCode'', JString (to_valid_utf8 c))])
                  @ d @ m)"
    by blast
  from d have d': "d = (case Data r of None \<Rightarrow> [] | Some v \<Rightarrow> [(''data'', projr (enc v))])"
    by (auto simp: marshal_any_def split: option.splits sum.splits)
  from m have m': "m = (case Meta r of None \<Rightarrow> [] | Some v \<Rightarrow> [(''meta'', projr (enc v))])"
    by (auto simp: marshal_any_def split: option.splits sum.splits)
  show ?thesis
    unfolding doc d' m'
    by (cases "ErrorCode r"; cases "Data r"; cases "Meta r")
      (simp_all add: to_valid_utf8_eq_Nil)
qed

lemma ToJson_sample_not_found:
  "ToJson enc_sample
     \<lparr>StatusCode = 404, Success = False, Message = ''Requested resource not found'',
      ErrorCode = Some ''E404'', Data = None, Meta = Some (Generic (JNumber ''1''))\<rparr>
   = Inr (JObject [(''success'', JBool False),
        (''message'', JString ''Requested resource not found''),
        (''errorCode'', JString ''E404''), (''meta'', JNumber ''1'')])"
  by (simp add: ToJson_def Marshal_def marshal_any_def to_valid_utf8_valid valid_utf8_ascii)

theorem ToJson_members_witness:
  "ToJson enc_sample
     \<lparr>StatusCode = 404, Success = False, Message = ''Requested resource not found'',
      ErrorCode = Some ''E404'', Data = None, Meta = Some (Generic (JNumber ''1''))\<rparr>
   = Inr (JObject [(''success'', JBool False),
        (''message'', JString ''Requested resource not found''),
        (''errorCode'', JString ''E404''), (''meta'', JNumber ''1'')])
   \<and> (\<exists>members.
        JObject [(''success'', JBool False),
          (''message'', JString ''Requested resource not found''),
          (''errorCode'', JString ''E404''), (''meta'', JNumber ''1'')] = JObject members
        \<and> map_of members ''success'' = Some (JBool False)
        \<and> map_of members ''errorCode'' = Some (JString ''E404'')
        \<and> ''data'' \<notin> fst ` set members \<and> ''meta'' \<in> fst ` set members
        \<and> ''statusCode'' \<notin> fst ` set members)"
  using ToJson_members [OF ToJson_sample_not_found] ToJson_sample_not_found
  by (simp add: to_valid_utf8_valid valid_utf8_ascii)

text \<open>
  An envelope whose error code is a pointer to the empty string has the member
  \<open>errorCode\<close> with an empty value; the decoder returns such an envelope for that
  member.
\<close>

theorem ToJson_members_counterexample:
  "ToJson enc_sample
     \<lparr>StatusCode = 400, Success = False, Message = ''bad'', ErrorCode = Some [],
      Data = None, Meta = None\<rparr>
   = Inr (JObject [(''success'', JBool False), (''message'', JString ''bad''),
        (''errorCode'', JString [])])
   \<and> FromJsonToAPIResponse dec_sample
       (JObject [(''message'', JString ''bad''), (''errorCode'', JString [])])
     = Some \<lparr>StatusCode = 0, Success = False, Message = ''bad'', ErrorCode = Some [],
         Data = None, Meta = None\<rparr>"
  by (simp add: ToJson_def Marshal_def marshal_any_def to_valid_utf8_valid valid_utf8_ascii
      to_valid_utf8_Nil FromJsonToAPIResponse_def Unmarshal_def zero_APIResponse_def
      field_named_names maxNestingDepth_def)

end
